theory Spec2Isabelle
  imports Main "HOL-Library.Word"
begin

section \<open>The driver of the \<open>jacobi\<close> executable (prog2/main.cpp)\<close>

text \<open>
  The repository's source is the driver \<^verbatim>\<open>main\<close>: it parses the command line on rank 0,
  loads or generates the system \<open>A x = b\<close>, and hands it either to the sequential solver
  \<^verbatim>\<open>jacobi\<close> (one process) or, after broadcasting \<open>n\<close>, checking that the process count is
  a perfect square and building the Cartesian grid, to the parallel solver \<^verbatim>\<open>mpi_jacobi\<close>.

  One process is modelled as a function from its inputs (communicator size \<open>p\<close>, its
  \<open>rank\<close>, the command line) to either the state in which it stopped abnormally or the
  state in which \<^verbatim>\<open>main\<close> returned. The state carries the variables of \<^verbatim>\<open>main\<close>
  and the trace of the calls the process made to its collaborators. The collaborators
  declared in jacobi.h, mpi_jacobi.h, utils.h and io.h are not part of the sources; they
  are parameters of the model (the record \<open>env\<close>).
\<close>

subsection \<open>Machine types\<close>

text \<open>
  \<^verbatim>\<open>int\<close> is a 32-bit two's complement word (read with \<open>sint\<close>), \<^verbatim>\<open>size_t\<close> a 64-bit
  unsigned word. The driver never computes with a \<^verbatim>\<open>double\<close> of a vector; an element is
  kept as its 64-bit pattern, and the value-initialised element of
  \<^verbatim>\<open>std::vector<double>(n)\<close> is the pattern 0.
\<close>

type_synonym cint = "32 word"
type_synonym size_t = "64 word"
type_synonym double = "64 word"

text \<open>\<^verbatim>\<open>v.size()\<close> of a vector.\<close>

definition size_v :: "double list \<Rightarrow> size_t" where
  "size_v v = word_of_nat (length v)"

text \<open>
  The local \<^verbatim>\<open>double difficulty = 0.5\<close>, overwritten by \<^verbatim>\<open>iss >> difficulty\<close> when a
  fifth argument is given. The extraction is kept symbolic: the text it was read from.
\<close>

datatype difficulty = Half | Extracted string

text \<open>
  The expression \<^verbatim>\<open>&v[0]\<close>. On a non-empty vector it designates the vector's storage; on
  an empty vector the subscript has no element to designate.
\<close>

datatype elem0_ref = No_element | Element0 "double list"

definition addr_elem0 :: "double list \<Rightarrow> elem0_ref" where
  "addr_elem0 v = (case v of [] \<Rightarrow> No_element | _ # _ \<Rightarrow> Element0 v)"

text \<open>
  Communicators: the world, and the result of
  \<^verbatim>\<open>MPI_Cart_create(comm_old, ndims, dims, periods, reorder, &comm_cart)\<close>.
\<close>

datatype comm = MPI_COMM_WORLD | Cart_comm comm nat "cint list" "cint list" cint

definition MPI_Cart_create :: "comm \<Rightarrow> nat \<Rightarrow> cint list \<Rightarrow> cint list \<Rightarrow> cint \<Rightarrow> comm" where
  "MPI_Cart_create comm_old ndims dims periods reorder =
     Cart_comm comm_old ndims dims periods reorder"

subsection \<open>Collaborators, trace and process state\<close>

text \<open>
  The functions the driver calls but does not define. A solver writes its result through
  the pointer \<^verbatim>\<open>&x[0]\<close>: it is given as the new contents of \<open>x\<close> by index, so that a
  solver cannot change the size of the driver's vector. The call of \<^verbatim>\<open>mpi_jacobi\<close> at
  line 183 is an expression statement; whatever value the call has, of a type \<open>'r\<close> fixed
  by the absent header, is the second component of the result. The collaborators are
  taken to return; the driver reads neither \<open>A\<close> nor \<open>b\<close> after a solver call, so what a
  solver does to them is not recorded.
\<close>

record 'r env =
  diag_dom_rand :: "cint \<Rightarrow> difficulty \<Rightarrow> double list"
  randn :: "cint \<Rightarrow> double list"
  read_binary_file :: "string \<Rightarrow> double list"
  jacobi :: "cint \<Rightarrow> elem0_ref \<Rightarrow> elem0_ref \<Rightarrow> elem0_ref \<Rightarrow> nat \<Rightarrow> double"
  mpi_jacobi :: "cint \<Rightarrow> elem0_ref \<Rightarrow> elem0_ref \<Rightarrow> elem0_ref \<Rightarrow> comm \<Rightarrow> (nat \<Rightarrow> double) \<times> 'r"

datatype event =
    Ev_MPI_Init
  | Ev_print_usage
  | Ev_diag_dom_rand cint difficulty
  | Ev_randn cint
  | Ev_read_binary_file string
  | Ev_timer_start
  | Ev_MPI_Bcast_n
  | Ev_MPI_Cart_create comm
  | Ev_alloc_x nat
  | Ev_mpi_jacobi cint elem0_ref elem0_ref elem0_ref comm
  | Ev_warning_sequential
  | Ev_jacobi cint elem0_ref elem0_ref elem0_ref
  | Ev_timer_end
  | Ev_print_time
  | Ev_write_binary_file string "double list"
  | Ev_MPI_Finalize

text \<open>
  How a process stops other than by returning from \<^verbatim>\<open>main\<close>: \<^verbatim>\<open>exit(EXIT_FAILURE)\<close>,
  an uncaught \<^verbatim>\<open>std::runtime_error\<close> with its message, the \<^verbatim>\<open>std::length_error\<close> of a
  vector constructor, a broadcast that the root never enters, and a read of the
  uninitialised \<open>n\<close>.
\<close>

datatype stop =
    Exit_failure
  | Runtime_error string
  | Length_error
  | Stuck_in_bcast
  | Indeterminate_n

definition dimensions_msg :: string where
  "dimensions_msg = ''The input dimensions are not matching''"

definition perfect_square_msg :: string where
  "perfect_square_msg = ''The number of MPI processes must be a perfect square''"

text \<open>
  The locals of \<^verbatim>\<open>main\<close> (lines 79 to 86). \<open>n_var\<close> is \<open>None\<close> while \<^verbatim>\<open>int n\<close> is
  uninitialised. The trace holds the calls to collaborators and to the library; the one
  step of \<^verbatim>\<open>main\<close> itself that the claims speak of, the perfect-square check of lines 163
  and 164, is recorded by the flag \<open>square_checked\<close>, set when the process evaluates it.
\<close>

record proc =
  A_vec :: "double list"
  b_vec :: "double list"
  x_vec :: "double list"
  write_output :: bool
  outfile_name :: string
  n_var :: "cint option"
  square_checked :: bool
  trace :: "event list"

definition init_proc :: proc where
  "init_proc = \<lparr>A_vec = [], b_vec = [], x_vec = [], write_output = False,
                 outfile_name = [], n_var = None, square_checked = False, trace = []\<rparr>"

definition emit :: "event \<Rightarrow> proc \<Rightarrow> proc" where
  "emit e st = st\<lparr>trace := trace st @ [e]\<rparr>"

type_synonym result = "(stop \<times> proc) + proc"

subsection \<open>Library functions\<close>

text \<open>
  \<^verbatim>\<open>atoi\<close> of the C library is \<^verbatim>\<open>(int)strtol(s, NULL, 10)\<close>. \<^verbatim>\<open>strtol\<close> skips leading
  white space, reads an optional sign and the longest run of decimal digits (with no digit
  the result is 0), and saturates at \<^verbatim>\<open>LONG_MAX\<close> and \<^verbatim>\<open>LONG_MIN\<close>; \<^verbatim>\<open>long\<close> has 64 bits,
  as \<^verbatim>\<open>size_t\<close> has. The conversion to \<^verbatim>\<open>int\<close> keeps the low 32 bits, so a text beyond
  \<^verbatim>\<open>long\<close> gives \<open>-1\<close> (from \<^verbatim>\<open>LONG_MAX\<close>) or \<open>0\<close> (from \<^verbatim>\<open>LONG_MIN\<close>).
\<close>

definition isspace :: "char \<Rightarrow> bool" where
  "isspace c = (c \<in> set [CHR '' '', CHR 0x09, CHR 0x0A, CHR 0x0B, CHR 0x0C, CHR 0x0D])"

definition isdigit :: "char \<Rightarrow> bool" where
  "isdigit c = (48 \<le> (of_char c :: nat) \<and> (of_char c :: nat) \<le> 57)"

fun digits_value :: "int \<Rightarrow> string \<Rightarrow> int" where
  "digits_value acc [] = acc"
| "digits_value acc (c # cs) =
     (if isdigit c then digits_value (10 * acc + (int (of_char c) - 48)) cs else acc)"

definition strtol :: "string \<Rightarrow> int" where
  "strtol s =
     (case dropWhile isspace s of
        [] \<Rightarrow> 0
      | c # r \<Rightarrow>
          (let v = (if c = CHR ''-'' then - digits_value 0 r
                    else if c = CHR ''+'' then digits_value 0 r
                    else digits_value 0 (c # r))
           in max (- (2 ^ 63)) (min (2 ^ 63 - 1) v)))"

definition atoi :: "string \<Rightarrow> cint" where
  "atoi s = word_of_int (strtol s)"

text \<open>
  \<^verbatim>\<open>(int)sqrt(p)\<close>: \<open>p\<close> is converted to \<^verbatim>\<open>double\<close> exactly, the IEEE square root is
  correctly rounded, and for \<open>0 \<le> p < 2^31\<close> the truncation of the rounded root is the
  integer square root (the root of \<open>(q+1)^2 - 1\<close> is further from \<open>q + 1\<close> than half a
  unit in the last place). The driver takes it only where \<open>p > 1\<close>.
\<close>

primrec floor_sqrt :: "nat \<Rightarrow> nat" where
  "floor_sqrt 0 = 0"
| "floor_sqrt (Suc m) =
     (let r = floor_sqrt m in if (r + 1) * (r + 1) \<le> Suc m then r + 1 else r)"

definition int_sqrt :: "cint \<Rightarrow> cint" where
  "int_sqrt p = word_of_nat (floor_sqrt (nat (sint p)))"

text \<open>
  \<^verbatim>\<open>std::vector<double>(n)\<close> with \<^verbatim>\<open>int n\<close>: the count is converted to \<^verbatim>\<open>size_t\<close>, so a
  negative \<open>n\<close> exceeds \<^verbatim>\<open>max_size()\<close> and the constructor throws. Memory is assumed to
  suffice otherwise.
\<close>

definition alloc_vector :: "cint \<Rightarrow> stop + double list" where
  "alloc_vector k = (if sint k < 0 then Inl Length_error else Inr (replicate (nat (sint k)) 0))"

subsection \<open>\<^verbatim>\<open>main\<close>, lines 87 to 145: the input of rank 0\<close>

definition read_input :: "'r env \<Rightarrow> string list \<Rightarrow> proc \<Rightarrow> result" where
  "read_input env argv st =
     (if length argv < 3 then Inl (Exit_failure, emit Ev_print_usage st)
      else if argv ! 1 = ''-n'' then
        (let n = atoi (argv ! 2);
             st1 = st\<lparr>n_var := Some n\<rparr>
         in if \<not> (0 <s n) then Inl (Exit_failure, emit Ev_print_usage st1)
            else if length argv = 5 \<and> argv ! 3 \<noteq> ''-d''
              then Inl (Exit_failure, emit Ev_print_usage st1)
            else
              (let difficulty = (if length argv = 5 then Extracted (argv ! 4) else Half);
                   st2 = emit (Ev_diag_dom_rand n difficulty)
                           (st1\<lparr>A_vec := diag_dom_rand env n difficulty\<rparr>);
                   st3 = emit (Ev_randn n) (st2\<lparr>b_vec := randn env n\<rparr>)
               in Inr st3))
      else if length argv \<noteq> 4 then Inl (Exit_failure, emit Ev_print_usage st)
      else
        (let st1 = st\<lparr>outfile_name := argv ! 3, write_output := True\<rparr>;
             st2 = emit (Ev_read_binary_file (argv ! 1))
                     (st1\<lparr>A_vec := read_binary_file env (argv ! 1)\<rparr>);
             st3 = emit (Ev_read_binary_file (argv ! 2))
                     (st2\<lparr>b_vec := read_binary_file env (argv ! 2)\<rparr>);
             n = (ucast (size_v (b_vec st3)) :: cint);
             st4 = st3\<lparr>n_var := Some n\<rparr>
         in if size_v (A_vec st4) \<noteq> scast n * (scast n :: size_t)
            then Inl (Runtime_error dimensions_msg, st4)
            else Inr st4))"

text \<open>Lines 70 to 157: \<^verbatim>\<open>MPI_Init\<close>, the input on rank 0, the start of the timer on rank 0.\<close>

definition prologue :: "'r env \<Rightarrow> cint \<Rightarrow> string list \<Rightarrow> result" where
  "prologue env rank argv =
     (let st0 = emit Ev_MPI_Init init_proc
      in if rank = 0 then
           (case read_input env argv st0 of
              Inl e \<Rightarrow> Inl e
            | Inr st1 \<Rightarrow> Inr (emit Ev_timer_start st1))
         else Inr st0)"

subsection \<open>Lines 158 to 184: the parallel branch\<close>

text \<open>
  \<^verbatim>\<open>MPI_Bcast(&n, 1, MPI_INT, 0, MPI_COMM_WORLD)\<close>. The root sends its \<open>n\<close>. Every other
  process receives the \<open>n\<close> that the root holds when it enters the broadcast, which is
  determined by the root's own run of lines 70 to 157 on the same command line; when the
  root has stopped before the broadcast, the call never completes.
\<close>

definition MPI_Bcast_n :: "'r env \<Rightarrow> string list \<Rightarrow> cint \<Rightarrow> proc \<Rightarrow> result" where
  "MPI_Bcast_n env argv rank st =
     (let st1 = emit Ev_MPI_Bcast_n st
      in if rank = 0 then Inr st1
         else (case prologue env 0 argv of
                 Inl e \<Rightarrow> Inl (Stuck_in_bcast, st1)
               | Inr root \<Rightarrow> Inr (st1\<lparr>n_var := n_var root\<rparr>)))"

text \<open>The solver call of line 183; the solver's result replaces the contents of \<open>x\<close>.\<close>

definition call_mpi_jacobi :: "'r env \<Rightarrow> cint \<Rightarrow> comm \<Rightarrow> proc \<Rightarrow> proc" where
  "call_mpi_jacobi env n grid_comm st =
     (let a = addr_elem0 (A_vec st);
          b = addr_elem0 (b_vec st);
          x = addr_elem0 (x_vec st);
          st1 = emit (Ev_mpi_jacobi n a b x grid_comm) st
      in st1\<lparr>x_vec := map (fst (mpi_jacobi env n a b x grid_comm)) [0..<length (x_vec st1)]\<rparr>)"

definition parallel_branch :: "'r env \<Rightarrow> cint \<Rightarrow> cint \<Rightarrow> string list \<Rightarrow> proc \<Rightarrow> result" where
  "parallel_branch env p rank argv st =
     (case MPI_Bcast_n env argv rank st of
        Inl e \<Rightarrow> Inl e
      | Inr st0 \<Rightarrow>
          (let q = int_sqrt p;
               st1 = st0\<lparr>square_checked := True\<rparr>
           in if p \<noteq> q * q then Inl (Runtime_error perfect_square_msg, st1)
              else
                (let grid_comm = MPI_Cart_create MPI_COMM_WORLD 2 [q, q] [0, 0] 0;
                     st2 = emit (Ev_MPI_Cart_create grid_comm) st1
                 in case n_var st2 of
                      None \<Rightarrow> Inl (Indeterminate_n, st2)
                    | Some n \<Rightarrow>
                        if rank = 0 then
                          (case alloc_vector n of
                             Inl e \<Rightarrow> Inl (e, st2)
                           | Inr v \<Rightarrow>
                               Inr (call_mpi_jacobi env n grid_comm
                                      (emit (Ev_alloc_x (length v)) (st2\<lparr>x_vec := v\<rparr>))))
                        else Inr (call_mpi_jacobi env n grid_comm st2))))"

subsection \<open>Lines 185 to 197: the sequential branch\<close>

definition sequential_branch :: "'r env \<Rightarrow> proc \<Rightarrow> result" where
  "sequential_branch env st =
     (let st1 = emit Ev_warning_sequential st
      in case n_var st1 of
           None \<Rightarrow> Inl (Indeterminate_n, st1)
         | Some n \<Rightarrow>
             (case alloc_vector n of
                Inl e \<Rightarrow> Inl (e, st1)
              | Inr v \<Rightarrow>
                  (let st2 = emit (Ev_alloc_x (length v)) (st1\<lparr>x_vec := v\<rparr>);
                       a = addr_elem0 (A_vec st2);
                       b = addr_elem0 (b_vec st2);
                       x = addr_elem0 (x_vec st2);
                       st3 = emit (Ev_jacobi n a b x) st2
                   in Inr (st3\<lparr>x_vec := map (jacobi env n a b x) [0..<length (x_vec st3)]\<rparr>))))"

subsection \<open>Lines 199 to 224: the report of rank 0, and the whole of \<^verbatim>\<open>main\<close>\<close>

definition report :: "proc \<Rightarrow> proc" where
  "report st =
     (let st1 = emit Ev_print_time (emit Ev_timer_end st)
      in if write_output st1
         then emit (Ev_write_binary_file (outfile_name st1) (x_vec st1)) st1
         else st1)"

definition main :: "'r env \<Rightarrow> cint \<Rightarrow> cint \<Rightarrow> string list \<Rightarrow> result" where
  "main env p rank argv =
     (case prologue env rank argv of
        Inl e \<Rightarrow> Inl e
      | Inr st \<Rightarrow>
          (case (if 1 <s p then parallel_branch env p rank argv st
                 else sequential_branch env st) of
             Inl e \<Rightarrow> Inl e
           | Inr st1 \<Rightarrow> Inr (emit Ev_MPI_Finalize (if rank = 0 then report st1 else st1))))"

text \<open>A run: the processes of ranks \<open>0\<close> to \<open>p - 1\<close> on one command line.\<close>

definition run :: "'r env \<Rightarrow> cint \<Rightarrow> string list \<Rightarrow> result list" where
  "run env p argv = map (\<lambda>r. main env p (word_of_nat r) argv) [0..<nat (sint p)]"

text \<open>Observations of a result.\<close>

definition outcome :: "result \<Rightarrow> stop option" where
  "outcome r = (case r of Inl (e, st) \<Rightarrow> Some e | Inr st \<Rightarrow> None)"

definition state_of :: "result \<Rightarrow> proc" where
  "state_of r = (case r of Inl (e, st) \<Rightarrow> st | Inr st \<Rightarrow> st)"

definition trace_of :: "result \<Rightarrow> event list" where
  "trace_of r = trace (state_of r)"

fun is_solver_call :: "event \<Rightarrow> bool" where
  "is_solver_call (Ev_mpi_jacobi n a b x c) = True"
| "is_solver_call (Ev_jacobi n a b x) = True"
| "is_solver_call e = False"

text \<open>The communicator built at lines 170 to 173 when the process count is \<open>p\<close>.\<close>

definition grid_of :: "cint \<Rightarrow> comm" where
  "grid_of p = MPI_Cart_create MPI_COMM_WORLD 2 [int_sqrt p, int_sqrt p] [0, 0] 0"

text \<open>The events of lines 70 to 157.\<close>

fun is_prologue_event :: "event \<Rightarrow> bool" where
  "is_prologue_event Ev_MPI_Init = True"
| "is_prologue_event Ev_print_usage = True"
| "is_prologue_event (Ev_diag_dom_rand n d) = True"
| "is_prologue_event (Ev_randn n) = True"
| "is_prologue_event (Ev_read_binary_file f) = True"
| "is_prologue_event Ev_timer_start = True"
| "is_prologue_event e = False"

text \<open>
  A size argument with no digit where the number has to start: after the white space and
  an optional sign comes the end of the text or a character that is not a digit.
\<close>

definition non_numeric :: "string \<Rightarrow> bool" where
  "non_numeric s =
     (case dropWhile isspace s of
        [] \<Rightarrow> True
      | c # r \<Rightarrow>
          if c = CHR ''-'' \<or> c = CHR ''+''
          then (case r of [] \<Rightarrow> True | d # r' \<Rightarrow> \<not> isdigit d)
          else \<not> isdigit c)"

subsection \<open>The terminal states of the iterator, and environments for concrete runs\<close>

text \<open>
  Modelled from the spec: the status flag of the Jacobi iterator (section 4.5, terminal
  states \<open>CONVERGED\<close> and \<open>MAX_ITERS_REACHED\<close>). The declaration of \<^verbatim>\<open>mpi_jacobi\<close>
  (mpi_jacobi.h) is not part of the sources.
\<close>

datatype status = CONVERGED | MAX_ITERS_REACHED







text \<open>
  An environment for concrete runs: generated input of the requested size, a 2-by-2
  system in the files \<open>A.bin\<close> and \<open>b.bin\<close>, and solvers that fill \<open>x\<close> with one
  pattern; the parallel solver ends in the terminal state \<open>s\<close>.
\<close>

definition test_env :: "status \<Rightarrow> status env" where
  "test_env s =
     \<lparr>diag_dom_rand = (\<lambda>n d. replicate (nat (sint n) * nat (sint n)) 1),
      randn = (\<lambda>n. replicate (nat (sint n)) 1),
      read_binary_file = (\<lambda>name. if name = ''A.bin'' then [1, 2, 3, 4]
                                  else if name = ''b.bin'' then [5, 6] else []),
      jacobi = (\<lambda>n a b x i. 7),
      mpi_jacobi = (\<lambda>n a b x c. (\<lambda>i. 7, s))\<rparr>"

text \<open>
  An environment with input files at the limits of \<^verbatim>\<open>int\<close>: vectors of \<open>2^32 - 1\<close> and of
  \<open>2^32 + 2\<close> elements next to matrices of 1 and of 4 elements.
\<close>

definition big_env :: "status env" where
  "big_env =
     \<lparr>diag_dom_rand = (\<lambda>n d. []),
      randn = (\<lambda>n. []),
      read_binary_file = (\<lambda>name. if name = ''A1.bin'' then [1]
                                  else if name = ''A4.bin'' then [1, 2, 3, 4]
                                  else if name = ''b_minus1.bin'' then replicate (2 ^ 32 - 1) 0
                                  else if name = ''b_plus2.bin'' then replicate (2 ^ 32 + 2) 0
                                  else []),
      jacobi = (\<lambda>n a b x i. 7),
      mpi_jacobi = (\<lambda>n a b x c. (\<lambda>i. 7, CONVERGED))\<rparr>"

section \<open>Arithmetic of the checks\<close>

lemma floor_sqrt_bounds:
  "floor_sqrt m * floor_sqrt m \<le> m \<and> m < (floor_sqrt m + 1) * (floor_sqrt m + 1)"
  by (induction m) (auto simp: Let_def)

lemma floor_sqrt_of_square: "floor_sqrt (k * k) = k"
proof -
  let ?r = "floor_sqrt (k * k)"
  have lo: "?r * ?r \<le> k * k" and hi: "k * k < (?r + 1) * (?r + 1)"
    using floor_sqrt_bounds [of "k * k"] by auto
  have "?r \<le> k"
  proof (rule ccontr)
    assume "\<not> ?r \<le> k"
    then have "k + 1 \<le> ?r" by simp
    from this this have "(k + 1) * (k + 1) \<le> ?r * ?r" by (rule mult_le_mono)
    with lo show False by simp
  qed
  moreover have "k \<le> ?r"
  proof (rule ccontr)
    assume "\<not> k \<le> ?r"
    then have "?r + 1 \<le> k" by simp
    from this this have "(?r + 1) * (?r + 1) \<le> k * k" by (rule mult_le_mono)
    with hi show False by simp
  qed
  ultimately show ?thesis by simp
qed

lemma floor_sqrt_square_iff: "floor_sqrt m * floor_sqrt m = m \<longleftrightarrow> (\<exists>k. m = k * k)"
  using floor_sqrt_of_square by metis

lemma floor_sqrt_le: "floor_sqrt m \<le> m"
proof -
  have "floor_sqrt m \<le> floor_sqrt m * floor_sqrt m" by (cases "floor_sqrt m") auto
  then show ?thesis using floor_sqrt_bounds [of m] by linarith
qed

lemma nat_sint_bound: "nat (sint (p :: cint)) < 2 ^ 31"
  using sint_lt [of p] by simp

lemma square_check_iff:
  assumes "0 \<le> sint (p :: cint)"
  shows "p = int_sqrt p * int_sqrt p \<longleftrightarrow>
         floor_sqrt (nat (sint p)) * floor_sqrt (nat (sint p)) = nat (sint p)"
proof -
  let ?m = "nat (sint p)" and ?r = "floor_sqrt (nat (sint p))"
  have m: "?m < 2 ^ 31" by (rule nat_sint_bound)
  have rr: "?r * ?r \<le> ?m" using floor_sqrt_bounds by blast
  have p: "p = word_of_nat ?m" using assms by simp
  have "int_sqrt p * int_sqrt p = (word_of_nat (?r * ?r) :: cint)"
    by (simp add: int_sqrt_def)
  then have "p = int_sqrt p * int_sqrt p \<longleftrightarrow> (word_of_nat ?m :: cint) = word_of_nat (?r * ?r)"
    using p by metis
  also have "\<dots> \<longleftrightarrow> ?m = ?r * ?r"
    using m rr by (simp add: word_of_nat_eq_iff take_bit_nat_eq_self del: of_nat_mult)
  finally show ?thesis by auto
qed

lemma sint_int_sqrt:
  assumes "0 \<le> sint (p :: cint)"
  shows "sint (int_sqrt p) = int (floor_sqrt (nat (sint p)))"
proof -
  have "floor_sqrt (nat (sint p)) < 2 ^ 31"
    using floor_sqrt_le [of "nat (sint p)"] nat_sint_bound [of p] by linarith
  then show ?thesis
    by (simp add: int_sqrt_def signed_of_nat signed_take_bit_int_eq_self)
qed

lemma sless_one_iff: "1 <s (p :: cint) \<longleftrightarrow> 1 < sint p"
  by (simp add: word_sless_alt)

lemma sless_zero_iff: "0 <s (n :: cint) \<longleftrightarrow> 0 < sint n"
  by (simp add: word_sless_alt)

lemma sint_sq_bound: "sint (n :: cint) * sint n \<le> 2 ^ 62"
proof -
  have "\<bar>sint n\<bar> \<le> 2 ^ 31" using sint_lt [of n] sint_ge [of n] by simp
  then have "\<bar>sint n\<bar> * \<bar>sint n\<bar> \<le> 2 ^ 31 * 2 ^ 31" by (intro mult_mono) auto
  then show ?thesis by (simp add: abs_mult_self_eq)
qed

lemma dimension_check_iff:
  assumes "length A < 2 ^ 64"
  shows "size_v A = scast n * (scast (n :: cint) :: size_t) \<longleftrightarrow> int (length A) = sint n * sint n"
proof -
  have "(scast n :: size_t) = word_of_int (sint n)" by (rule scast_eq)
  then have rhs: "scast n * (scast n :: size_t) = word_of_int (sint n * sint n)" by simp
  have lhs: "size_v A = word_of_int (int (length A))" by (simp add: size_v_def)
  have b1: "0 \<le> sint n * sint n" by simp
  have b2: "sint n * sint n < 2 ^ 64" using sint_sq_bound [of n] by simp
  have "int (length A) < int (2 ^ 64)" using assms by (simp only: of_nat_less_iff)
  then have b3: "int (length A) < 2 ^ 64" by simp
  have t1: "take_bit LENGTH(64) (int (length A)) = int (length A)"
    using b3 by (simp add: take_bit_int_eq_self)
  have t2: "take_bit LENGTH(64) (sint n * sint n) = sint n * sint n"
    using b1 b2 by (simp add: take_bit_int_eq_self)
  have "size_v A = scast n * (scast n :: size_t) \<longleftrightarrow>
        (word_of_int (int (length A)) :: size_t) = word_of_int (sint n * sint n)"
    by (simp only: lhs rhs)
  also have "\<dots> \<longleftrightarrow> int (length A) = sint n * sint n"
    by (simp only: word_of_int_eq_iff t1 t2)
  finally show ?thesis .
qed

section \<open>The phases of \<^verbatim>\<open>main\<close>\<close>

lemma state_of_simps [simp]: "state_of (Inl (e, st)) = st" "state_of (Inr st) = st"
  by (simp_all add: state_of_def)

lemma outcome_simps [simp]: "outcome (Inl (e, st)) = Some e" "outcome (Inr st) = None"
  by (simp_all add: outcome_def)

lemma emit_simps [simp]:
  "trace (emit e st) = trace st @ [e]"
  "A_vec (emit e st) = A_vec st"
  "b_vec (emit e st) = b_vec st"
  "x_vec (emit e st) = x_vec st"
  "n_var (emit e st) = n_var st"
  "write_output (emit e st) = write_output st"
  "outfile_name (emit e st) = outfile_name st"
  "square_checked (emit e st) = square_checked st"
  by (simp_all add: emit_def)


lemma read_input_trace:
  "\<exists>evs. trace (state_of (read_input env argv st)) = trace st @ evs \<and>
         (\<forall>e \<in> set evs. is_prologue_event e)"
  by (simp add: read_input_def Let_def)

lemma read_input_n: "read_input env argv st = Inr st' \<Longrightarrow> n_var st' \<noteq> None"
  by (auto simp add: read_input_def Let_def split: if_splits)

lemma prologue_nonroot: "rank \<noteq> 0 \<Longrightarrow> prologue env rank argv = Inr (emit Ev_MPI_Init init_proc)"
  by (simp add: prologue_def)


lemma prologue_trace: "\<forall>e \<in> set (trace_of (prologue env rank argv)). is_prologue_event e"
  using read_input_trace [of env argv "emit Ev_MPI_Init init_proc"]
  by (auto simp add: prologue_def trace_of_def Let_def init_proc_def split: sum.splits)

lemma prologue_root_n: "prologue env 0 argv = Inr st \<Longrightarrow> n_var st \<noteq> None"
  using read_input_n [of env argv "emit Ev_MPI_Init init_proc"]
  by (auto simp add: prologue_def Let_def split: sum.splits)

lemma trace_of_simps [simp]: "trace_of (Inl (e, st)) = trace st" "trace_of (Inr st) = trace st"
  by (simp_all add: trace_of_def)

lemma call_mpi_jacobi_simps [simp]:
  "trace (call_mpi_jacobi env n g st) =
     trace st @ [Ev_mpi_jacobi n (addr_elem0 (A_vec st)) (addr_elem0 (b_vec st)) (addr_elem0 (x_vec st)) g]"
  "A_vec (call_mpi_jacobi env n g st) = A_vec st"
  "b_vec (call_mpi_jacobi env n g st) = b_vec st"
  "length (x_vec (call_mpi_jacobi env n g st)) = length (x_vec st)"
  "n_var (call_mpi_jacobi env n g st) = n_var st"
  "write_output (call_mpi_jacobi env n g st) = write_output st"
  "outfile_name (call_mpi_jacobi env n g st) = outfile_name st"
  "square_checked (call_mpi_jacobi env n g st) = square_checked st"
  by (simp_all add: call_mpi_jacobi_def Let_def)

lemma report_simps [simp]:
  "A_vec (report st) = A_vec st"
  "b_vec (report st) = b_vec st"
  "x_vec (report st) = x_vec st"
  "n_var (report st) = n_var st"
  "trace (report st) = trace st @ [Ev_timer_end, Ev_print_time] @
     (if write_output st then [Ev_write_binary_file (outfile_name st) (x_vec st)] else [])"
  by (simp_all add: report_def Let_def)

lemma main_stops_in_prologue:
  "prologue env rank argv = Inl e \<Longrightarrow> main env p rank argv = Inl e"
  by (simp add: main_def)

lemma main_parallel_nonroot:
  assumes "rank \<noteq> 0" and "1 <s p"
  shows "main env p rank argv =
     (case prologue env 0 argv of
        Inl e \<Rightarrow> Inl (Stuck_in_bcast, emit Ev_MPI_Bcast_n (emit Ev_MPI_Init init_proc))
      | Inr root \<Rightarrow>
          if p \<noteq> int_sqrt p * int_sqrt p
          then Inl (Runtime_error perfect_square_msg,
                    (emit Ev_MPI_Bcast_n (emit Ev_MPI_Init init_proc))
                      \<lparr>n_var := n_var root, square_checked := True\<rparr>)
          else Inr (emit Ev_MPI_Finalize
                 (call_mpi_jacobi env (the (n_var root)) (grid_of p)
                    (emit (Ev_MPI_Cart_create (grid_of p))
                       ((emit Ev_MPI_Bcast_n (emit Ev_MPI_Init init_proc))
                          \<lparr>n_var := n_var root, square_checked := True\<rparr>)))))"
proof (cases "prologue env 0 argv")
  case (Inl e)
  then show ?thesis using assms
    by (simp add: main_def prologue_nonroot parallel_branch_def MPI_Bcast_n_def Let_def)
next
  case (Inr root)
  then obtain n where "n_var root = Some n" using prologue_root_n by blast
  then show ?thesis using assms Inr
    by (simp add: main_def prologue_nonroot parallel_branch_def MPI_Bcast_n_def Let_def grid_of_def)
qed

lemma main_parallel_root:
  assumes "prologue env 0 argv = Inr st" and "n_var st = Some n" and "1 <s p"
  shows "main env p 0 argv =
     (if p \<noteq> int_sqrt p * int_sqrt p
      then Inl (Runtime_error perfect_square_msg,
                (emit Ev_MPI_Bcast_n st)\<lparr>square_checked := True\<rparr>)
      else if sint n < 0
      then Inl (Length_error,
                emit (Ev_MPI_Cart_create (grid_of p))
                  ((emit Ev_MPI_Bcast_n st)\<lparr>square_checked := True\<rparr>))
      else Inr (emit Ev_MPI_Finalize (report
             (call_mpi_jacobi env n (grid_of p)
                (emit (Ev_alloc_x (nat (sint n)))
                   ((emit (Ev_MPI_Cart_create (grid_of p))
                       ((emit Ev_MPI_Bcast_n st)\<lparr>square_checked := True\<rparr>))
                      \<lparr>x_vec := replicate (nat (sint n)) 0\<rparr>))))))"
  using assms
  by (simp add: main_def parallel_branch_def MPI_Bcast_n_def Let_def grid_of_def alloc_vector_def)

lemma main_sequential_root:
  assumes "prologue env 0 argv = Inr st" and "n_var st = Some n" and "\<not> 1 <s p"
  shows "main env p 0 argv =
     (if sint n < 0 then Inl (Length_error, emit Ev_warning_sequential st)
      else Inr (emit Ev_MPI_Finalize (report
             ((emit (Ev_jacobi n (addr_elem0 (A_vec st)) (addr_elem0 (b_vec st))
                        (addr_elem0 (replicate (nat (sint n)) 0)))
                 (emit (Ev_alloc_x (nat (sint n)))
                    ((emit Ev_warning_sequential st)\<lparr>x_vec := replicate (nat (sint n)) 0\<rparr>)))
               \<lparr>x_vec := map (jacobi env n (addr_elem0 (A_vec st)) (addr_elem0 (b_vec st))
                                (addr_elem0 (replicate (nat (sint n)) 0)))
                            [0..<nat (sint n)]\<rparr>))))"
  using assms
  by (simp add: main_def sequential_branch_def Let_def alloc_vector_def)

lemma main_sequential_nonroot:
  assumes "rank \<noteq> 0" and "\<not> 1 <s p"
  shows "main env p rank argv =
     Inl (Indeterminate_n, emit Ev_warning_sequential (emit Ev_MPI_Init init_proc))"
  using assms
  by (simp add: main_def prologue_nonroot sequential_branch_def Let_def init_proc_def)

lemma init_proc_simps [simp]:
  "trace init_proc = []" "A_vec init_proc = []" "b_vec init_proc = []" "x_vec init_proc = []"
  "n_var init_proc = None" "write_output init_proc = False" "outfile_name init_proc = []"
  "square_checked init_proc = False"
  by (simp_all add: init_proc_def)

lemma is_square_iff:
  assumes "0 \<le> sint (p :: cint)"
  shows "p = int_sqrt p * int_sqrt p \<longleftrightarrow> (\<exists>k::nat. sint p = int (k * k))"
proof -
  have "(\<exists>k::nat. sint p = int (k * k)) \<longleftrightarrow> (\<exists>k::nat. nat (sint p) = k * k)"
    using assms by (metis nat_int int_nat_eq)
  then show ?thesis
    using square_check_iff [OF assms] floor_sqrt_square_iff [of "nat (sint p)"] by simp
qed

lemma msgs_differ: "dimensions_msg \<noteq> perfect_square_msg"
  by (simp add: dimensions_msg_def perfect_square_msg_def)

lemma read_input_outcome:
  "outcome (read_input env argv st) \<noteq> Some (Runtime_error perfect_square_msg)"
  using msgs_differ by (simp add: read_input_def Let_def)

lemma prologue_outcome:
  "outcome (prologue env rank argv) \<noteq> Some (Runtime_error perfect_square_msg)"
  using read_input_outcome [of env argv "emit Ev_MPI_Init init_proc"]
  by (auto simp add: prologue_def Let_def split: sum.splits)

lemma prologue_no_solver_call:
  "e \<in> set (trace_of (prologue env rank argv)) \<Longrightarrow> \<not> is_solver_call e"
  using prologue_trace [of env rank argv] by (cases e) auto

lemma outcome_None_iff: "outcome r = None \<longleftrightarrow> (\<exists>st. r = Inr st)"
  by (cases r) auto

subsection \<open>Results of \<^verbatim>\<open>main\<close> by case, and facts shared by the claims\<close>

lemma main_perfect_square_error_iff:
  "outcome (main env p rank argv) = Some (Runtime_error perfect_square_msg) \<longleftrightarrow>
     1 <s p \<and> p \<noteq> int_sqrt p * int_sqrt p \<and> outcome (prologue env 0 argv) = None"
proof (cases "prologue env 0 argv")
  case (Inl e)
  obtain s st where e: "e = (s, st)" by (cases e)
  show ?thesis
  proof (cases "rank = 0")
    case True
    then show ?thesis using Inl e prologue_outcome [of env 0 argv]
      by (simp add: main_stops_in_prologue)
  next
    case False
    then show ?thesis using Inl e
      by (cases "1 <s p") (simp_all add: main_parallel_nonroot main_sequential_nonroot)
  qed
next
  case (Inr root)
  then obtain n where n: "n_var root = Some n" using prologue_root_n by blast
  show ?thesis
  proof (cases "rank = 0")
    case True
    then show ?thesis using Inr n
      by (cases "1 <s p") (simp_all add: main_parallel_root main_sequential_root)
  next
    case False
    then show ?thesis using Inr
      by (cases "1 <s p") (simp_all add: main_parallel_nonroot main_sequential_nonroot)
  qed
qed

lemma grid_dims:
  assumes "1 <s p" and "p = int_sqrt p * int_sqrt p"
  shows "sint (int_sqrt p) * sint (int_sqrt p) = sint p \<and> 0 < sint (int_sqrt p)"
proof -
  have pos: "0 \<le> sint p" and big: "1 < sint p" using assms(1) by (simp_all add: sless_one_iff)
  let ?r = "floor_sqrt (nat (sint p))"
  have q: "sint (int_sqrt p) = int ?r" by (rule sint_int_sqrt [OF pos])
  have rr: "?r * ?r = nat (sint p)" using square_check_iff [OF pos] assms(2) by simp
  then have "int ?r * int ?r = sint p" using pos by (metis int_nat_eq of_nat_mult)
  moreover have "0 < ?r" using rr big by (cases "?r") auto
  ultimately show ?thesis using q by simp
qed

lemma main_mpi_jacobi_event:
  assumes "Ev_mpi_jacobi k a b x c \<in> set (trace_of (main env p rank argv))"
  shows "1 <s p \<and> p = int_sqrt p * int_sqrt p \<and> c = grid_of p \<and>
         Some k = n_var (state_of (prologue env 0 argv)) \<and> outcome (prologue env 0 argv) = None \<and>
         a = addr_elem0 (A_vec (state_of (prologue env rank argv))) \<and>
         b = addr_elem0 (b_vec (state_of (prologue env rank argv))) \<and>
         x = (if rank = 0 then addr_elem0 (replicate (nat (sint k)) 0) else No_element) \<and>
         (rank = 0 \<longrightarrow> 0 \<le> sint k)"
proof (cases "prologue env 0 argv")
  case (Inl e)
  obtain s st where e: "e = (s, st)" by (cases e)
  show ?thesis
  proof (cases "rank = 0")
    case True
    then show ?thesis using Inl e assms prologue_trace [of env 0 argv]
      by (auto simp add: main_stops_in_prologue)
  next
    case False
    then show ?thesis using Inl e assms
      by (cases "1 <s p") (simp_all add: main_parallel_nonroot main_sequential_nonroot)
  qed
next
  case (Inr root)
  then obtain n where n: "n_var root = Some n" using prologue_root_n by blast
  have pt: "\<forall>e \<in> set (trace root). is_prologue_event e"
    using prologue_trace [of env 0 argv] Inr by simp
  show ?thesis
  proof (cases "rank = 0")
    case True
    then show ?thesis using Inr n assms pt
      by (cases "1 <s p")
         (auto simp add: main_parallel_root main_sequential_root split: if_splits)
  next
    case False
    then show ?thesis using Inr n assms
      by (cases "1 <s p")
         (auto simp add: main_parallel_nonroot main_sequential_nonroot prologue_nonroot
               addr_elem0_def split: if_splits)
  qed
qed

lemma main_calls_mpi_jacobi:
  assumes "1 <s p" and "p = int_sqrt p * int_sqrt p"
    and "prologue env 0 argv = Inr root" and "n_var root = Some n"
    and "rank = 0 \<longrightarrow> 0 \<le> sint n"
  shows "\<exists>a b x. Ev_mpi_jacobi n a b x (grid_of p) \<in> set (trace_of (main env p rank argv))"
proof (cases "rank = 0")
  case True
  then show ?thesis using assms by (auto simp add: main_parallel_root)
next
  case False
  then show ?thesis using assms by (auto simp add: main_parallel_nonroot)
qed

lemma ucast_size_t: "(ucast (word_of_nat k :: size_t) :: cint) = word_of_nat k"
  by (simp add: unsigned_of_nat word_of_nat_eq_iff take_bit_of_nat min_def flip: of_nat_take_bit)

lemma sint_ucast_size:
  assumes "k < 2 ^ 31"
  shows "sint (ucast (word_of_nat k :: size_t) :: cint) = int k"
proof -
  have "int k < 2 ^ 31" using assms by (metis of_nat_less_iff of_nat_numeral of_nat_power)
  then show ?thesis
    by (simp add: ucast_size_t signed_of_nat signed_take_bit_int_eq_self)
qed

lemma read_input_file_mode:
  assumes "length argv = 4" and "argv ! 1 \<noteq> ''-n''"
  shows "read_input env argv st =
     (let A' = read_binary_file env (argv ! 1);
          b' = read_binary_file env (argv ! 2);
          n = (ucast (size_v b') :: cint);
          st' = st\<lparr>A_vec := A', b_vec := b', write_output := True, outfile_name := argv ! 3,
                    n_var := Some n,
                    trace := trace st @ [Ev_read_binary_file (argv ! 1), Ev_read_binary_file (argv ! 2)]\<rparr>
      in if size_v A' \<noteq> scast n * (scast n :: size_t)
         then Inl (Runtime_error dimensions_msg, st') else Inr st')"
  using assms by (simp add: read_input_def Let_def emit_def)

lemma main_nonroot_no_solver_call_when_root_stops:
  assumes "prologue env 0 argv = Inl e" and "ev \<in> set (trace_of (main env p rank argv))"
  shows "\<not> is_solver_call ev"
proof (cases "rank = 0")
  case True
  then show ?thesis using assms prologue_no_solver_call [of ev env 0 argv]
    by (simp add: main_stops_in_prologue)
next
  case False
  then show ?thesis using assms
    by (cases "1 <s p"; cases e) (auto simp add: main_parallel_nonroot main_sequential_nonroot)
qed

lemma digits_value_no_digit:
  "(case r of [] \<Rightarrow> True | d # r' \<Rightarrow> \<not> isdigit d) \<Longrightarrow> digits_value acc r = acc"
  by (cases r) simp_all

lemma strtol_non_numeric:
  assumes "non_numeric s"
  shows "strtol s = 0"
proof (cases "dropWhile isspace s")
  case Nil
  show ?thesis unfolding strtol_def Nil by simp
next
  case (Cons c r)
  have nn: "if c = CHR ''-'' \<or> c = CHR ''+''
            then (case r of [] \<Rightarrow> True | d # r' \<Rightarrow> \<not> isdigit d) else \<not> isdigit c"
    using assms unfolding non_numeric_def Cons by simp
  show ?thesis
  proof (cases "c = CHR ''-'' \<or> c = CHR ''+''")
    case True
    then have "digits_value 0 r = 0"
      using nn by (intro digits_value_no_digit) simp
    then show ?thesis unfolding strtol_def Cons using True by auto
  next
    case False
    then have "\<not> isdigit c" using nn by simp
    then show ?thesis unfolding strtol_def Cons using False by simp
  qed
qed

lemma atoi_non_numeric: "non_numeric s \<Longrightarrow> atoi s = 0"
  by (simp add: atoi_def strtol_non_numeric)

lemma read_input_bad_size:
  assumes "3 \<le> length argv" and "argv ! 1 = ''-n''" and "\<not> 0 <s atoi (argv ! 2)"
  shows "read_input env argv st =
           Inl (Exit_failure, emit Ev_print_usage (st\<lparr>n_var := Some (atoi (argv ! 2))\<rparr>))"
  using assms by (simp add: read_input_def Let_def)

lemma main_nonroot_x:
  assumes "rank \<noteq> 0"
  shows "A_vec (state_of (main env p rank argv)) = [] \<and>
         b_vec (state_of (main env p rank argv)) = [] \<and>
         x_vec (state_of (main env p rank argv)) = []"
proof (cases "1 <s p")
  case True
  then show ?thesis using assms
    by (cases "prologue env 0 argv")
       (auto simp add: main_parallel_nonroot call_mpi_jacobi_def Let_def)
next
  case False
  then show ?thesis using assms by (simp add: main_sequential_nonroot)
qed

lemma main_nonroot_events:
  assumes "rank \<noteq> 0" and "ev \<in> set (trace_of (main env p rank argv))"
  shows "ev = Ev_MPI_Init \<or> ev = Ev_MPI_Bcast_n \<or> ev = Ev_warning_sequential \<or>
         ev = Ev_MPI_Cart_create (grid_of p) \<or> ev = Ev_MPI_Finalize \<or>
         (\<exists>k. ev = Ev_mpi_jacobi k No_element No_element No_element (grid_of p))"
proof (cases "1 <s p")
  case True
  then show ?thesis using assms
    by (cases "prologue env 0 argv")
       (auto simp add: main_parallel_nonroot addr_elem0_def split: if_splits)
next
  case False
  then show ?thesis using assms by (auto simp add: main_sequential_nonroot)
qed

lemma report_more_simps [simp]:
  "write_output (report st) = write_output st"
  "outfile_name (report st) = outfile_name st"
  "square_checked (report st) = square_checked st"
  by (simp_all add: report_def Let_def)

lemma read_input_square_checked:
  "square_checked (state_of (read_input env argv st)) = square_checked st"
  by (simp add: read_input_def Let_def)

lemma prologue_square_checked: "\<not> square_checked (state_of (prologue env rank argv))"
  using read_input_square_checked [of env argv "emit Ev_MPI_Init init_proc"]
  by (auto simp add: prologue_def Let_def split: sum.splits)

lemma main_sequential_square_checked:
  assumes "\<not> 1 <s p"
  shows "\<not> square_checked (state_of (main env p 0 argv))"
proof (cases "prologue env 0 argv")
  case (Inl e)
  then show ?thesis using prologue_square_checked [of env 0 argv]
    by (simp add: main_stops_in_prologue)
next
  case (Inr root)
  then obtain n where n: "n_var root = Some n" using prologue_root_n by blast
  have "\<not> square_checked root" using prologue_square_checked [of env 0 argv] Inr by simp
  then show ?thesis using Inr n assms by (simp add: main_sequential_root)
qed

lemma main_sequential_root_run:
  assumes "prologue env 0 argv = Inr st" and "n_var st = Some n" and "0 \<le> sint n"
    and "\<not> 1 <s p"
  shows "outcome (main env p 0 argv) = None \<and>
         x_vec (state_of (main env p 0 argv)) =
           map (jacobi env n (addr_elem0 (A_vec st)) (addr_elem0 (b_vec st))
                  (addr_elem0 (replicate (nat (sint n)) 0))) [0..<nat (sint n)] \<and>
         trace_of (main env p 0 argv) =
           trace st @
           [Ev_warning_sequential, Ev_alloc_x (nat (sint n)),
            Ev_jacobi n (addr_elem0 (A_vec st)) (addr_elem0 (b_vec st))
              (addr_elem0 (replicate (nat (sint n)) 0)),
            Ev_timer_end, Ev_print_time] @
           (if write_output st
            then [Ev_write_binary_file (outfile_name st)
                    (map (jacobi env n (addr_elem0 (A_vec st)) (addr_elem0 (b_vec st))
                            (addr_elem0 (replicate (nat (sint n)) 0))) [0..<nat (sint n)])]
            else []) @
           [Ev_MPI_Finalize]"
  using assms by (simp add: main_sequential_root)



lemma main_parallel_broadcast:
  assumes "1 <s p" and "prologue env 0 argv = Inr root"
  shows "n_var (state_of (main env p rank argv)) = n_var root \<and>
         (\<exists>rest. trace_of (main env p rank argv) =
                   trace_of (prologue env rank argv) @ Ev_MPI_Bcast_n # rest \<and>
                 (p \<noteq> int_sqrt p * int_sqrt p \<longrightarrow> rest = []) \<and>
                 (p = int_sqrt p * int_sqrt p \<longrightarrow>
                    (\<exists>rest'. rest = Ev_MPI_Cart_create (grid_of p) # rest')))"
proof -
  obtain n where n: "n_var root = Some n" using assms(2) prologue_root_n by blast
  show ?thesis
  proof (cases "rank = 0")
    case True
    then show ?thesis using assms n
      by (simp add: main_parallel_root call_mpi_jacobi_def Let_def)
  next
    case False
    then show ?thesis using assms n
      by (simp add: main_parallel_nonroot prologue_nonroot call_mpi_jacobi_def Let_def)
  qed
qed

lemma main_parallel_no_broadcast:
  assumes "1 <s p" and "prologue env 0 argv = Inl e"
  shows "Ev_MPI_Bcast_n \<notin> set (trace_of (main env p 0 argv)) \<and>
         (rank \<noteq> 0 \<longrightarrow> outcome (main env p rank argv) = Some Stuck_in_bcast \<and>
                        n_var (state_of (main env p rank argv)) = None)"
proof -
  obtain s st where e: "e = (s, st)" by (cases e)
  have "Ev_MPI_Bcast_n \<notin> set (trace_of (main env p 0 argv))"
    using assms(2) e prologue_trace [of env 0 argv] by (auto simp add: main_stops_in_prologue)
  then show ?thesis using assms e by (simp add: main_parallel_nonroot)
qed

lemma big_prologue_plus2:
  "prologue big_env 0 [''./jacobi'', ''A4.bin'', ''b_plus2.bin'', ''x.bin''] =
     Inr (init_proc\<lparr>A_vec := [1, 2, 3, 4], b_vec := replicate (2 ^ 32 + 2) 0,
                    write_output := True, outfile_name := ''x.bin'', n_var := Some 2,
                    trace := [Ev_MPI_Init, Ev_read_binary_file ''A4.bin'',
                              Ev_read_binary_file ''b_plus2.bin'', Ev_timer_start]\<rparr>)"
  by (simp add: prologue_def read_input_file_mode big_env_def size_v_def Let_def emit_def
        init_proc_def)

lemma big_prologue_minus1:
  "prologue big_env 0 [''./jacobi'', ''A1.bin'', ''b_minus1.bin'', ''x.bin''] =
     Inr (init_proc\<lparr>A_vec := [1], b_vec := replicate (2 ^ 32 - 1) 0,
                    write_output := True, outfile_name := ''x.bin'', n_var := Some (- 1),
                    trace := [Ev_MPI_Init, Ev_read_binary_file ''A1.bin'',
                              Ev_read_binary_file ''b_minus1.bin'', Ev_timer_start]\<rparr>)"
  by (simp add: prologue_def read_input_file_mode big_env_def size_v_def Let_def emit_def
        init_proc_def)

subsection \<open>The iterator of the spec reaches a terminal state\<close>


lemma two_not_square: "\<nexists>k::nat. sint (2 :: cint) = int (k * k)"
proof -
  have "\<not> (2 :: cint) = int_sqrt 2 * int_sqrt 2" by code_simp
  then show ?thesis using is_square_iff [of "2 :: cint"] by simp
qed

section \<open>The claims\<close>

subsection \<open>C1: a process count that is not a perfect square\<close>

text \<open>
  C1, as amended. When the process count \<open>p > 1\<close> is not a perfect square, no process
  ever calls a solver. If the root gets through its argument handling and input loading,
  every process stops with the runtime error "The number of MPI processes must be a
  perfect square"; otherwise the root stops as its input handling stopped (usage exit or
  dimension error) and every other process stays in the broadcast of \<open>n\<close>.
\<close>

theorem not_square_stops_before_solver:
  assumes "1 <s p" and "\<nexists>k::nat. sint p = int (k * k)"
  shows "(\<forall>e \<in> set (trace_of (main env p rank argv)). \<not> is_solver_call e) \<and>
         (outcome (prologue env 0 argv) = None \<longrightarrow>
            outcome (main env p rank argv) = Some (Runtime_error perfect_square_msg)) \<and>
         (outcome (prologue env 0 argv) \<noteq> None \<longrightarrow>
            outcome (main env p rank argv) =
              (if rank = 0 then outcome (prologue env 0 argv) else Some Stuck_in_bcast))"
proof -
  have pos: "0 \<le> sint p" using assms(1) by (simp add: sless_one_iff)
  have ns: "p \<noteq> int_sqrt p * int_sqrt p" using assms(2) is_square_iff [OF pos] by simp
  show ?thesis
  proof (cases "prologue env 0 argv")
    case (Inl e)
    show ?thesis
    proof (cases "rank = 0")
      case True
      with Inl have "main env p rank argv = Inl e" by (simp add: main_stops_in_prologue)
      then show ?thesis using Inl True prologue_no_solver_call [of _ env 0 argv]
        by (cases e) auto
    next
      case False
      then show ?thesis using Inl assms(1)
        by (cases e) (simp add: main_parallel_nonroot)
    qed
  next
    case (Inr root)
    then obtain n where n: "n_var root = Some n" using prologue_root_n by blast
    show ?thesis
    proof (cases "rank = 0")
      case True
      then show ?thesis
        using Inr n assms(1) ns prologue_no_solver_call [of _ env 0 argv]
        by (auto simp add: main_parallel_root)
    next
      case False
      then show ?thesis using Inr assms(1) ns by (simp add: main_parallel_nonroot)
    qed
  qed
qed

theorem not_square_stops_before_solver_witness:
  "1 <s (2 :: cint) \<and>
   outcome (main (test_env CONVERGED) 2 1 [''./jacobi'', ''-n'', ''2'']) =
     Some (Runtime_error perfect_square_msg)"
proof -
  have h1: "1 <s (2 :: cint)" by (simp add: sless_one_iff)
  have h3: "outcome (prologue (test_env CONVERGED) 0 [''./jacobi'', ''-n'', ''2'']) = None"
    by code_simp
  from not_square_stops_before_solver [OF h1 two_not_square,
      where env = "test_env CONVERGED" and argv = "[''./jacobi'', ''-n'', ''2'']" and rank = 1]
    h1 h3
  show ?thesis by simp
qed

text \<open>
  C1 as stated fails: with two processes and no arguments the root prints the usage
  message and exits, the other process never leaves the broadcast, and nobody raises the
  perfect-square error.
\<close>

theorem not_square_without_arguments_counterexample:
  "1 <s (2 :: cint) \<and> (2 :: cint) \<noteq> int_sqrt 2 * int_sqrt 2 \<and>
   main (test_env CONVERGED) 2 0 [''./jacobi''] =
     Inl (Exit_failure, emit Ev_print_usage (emit Ev_MPI_Init init_proc)) \<and>
   outcome (main (test_env CONVERGED) 2 0 [''./jacobi'']) \<noteq>
     Some (Runtime_error perfect_square_msg) \<and>
   outcome (main (test_env CONVERGED) 2 1 [''./jacobi'']) = Some Stuck_in_bcast"
  by code_simp

subsection \<open>C2: what the driver gets back from the parallel solver\<close>




subsection \<open>C3: the buffers of a process that is not the root\<close>

text \<open>
  C3, as amended. On every process whose rank is not 0 the vectors \<open>A\<close>, \<open>b\<close> and \<open>x\<close>
  are empty to the end of the run, so the process supplies no matrix or vector data; the
  only solver call it can make is \<^verbatim>\<open>mpi_jacobi\<close> with the three buffer arguments formed
  by \<^verbatim>\<open>&v[0]\<close> on those empty vectors.
\<close>

theorem nonroot_supplies_empty_buffers:
  assumes "rank \<noteq> 0"
  shows "A_vec (state_of (main env p rank argv)) = [] \<and>
         b_vec (state_of (main env p rank argv)) = [] \<and>
         x_vec (state_of (main env p rank argv)) = [] \<and>
         (\<forall>ev \<in> set (trace_of (main env p rank argv)).
            is_solver_call ev \<longrightarrow>
            (\<exists>k. ev = Ev_mpi_jacobi k (addr_elem0 []) (addr_elem0 []) (addr_elem0 []) (grid_of p)))"
proof -
  have "\<forall>ev \<in> set (trace_of (main env p rank argv)).
            is_solver_call ev \<longrightarrow>
            (\<exists>k. ev = Ev_mpi_jacobi k (addr_elem0 []) (addr_elem0 []) (addr_elem0 []) (grid_of p))"
  proof (intro ballI impI)
    fix ev
    assume "ev \<in> set (trace_of (main env p rank argv))" and c: "is_solver_call ev"
    with assms have "ev = Ev_MPI_Init \<or> ev = Ev_MPI_Bcast_n \<or> ev = Ev_warning_sequential \<or>
         ev = Ev_MPI_Cart_create (grid_of p) \<or> ev = Ev_MPI_Finalize \<or>
         (\<exists>k. ev = Ev_mpi_jacobi k No_element No_element No_element (grid_of p))"
      by (intro main_nonroot_events)
    with c show "\<exists>k. ev = Ev_mpi_jacobi k (addr_elem0 []) (addr_elem0 []) (addr_elem0 []) (grid_of p)"
      by (auto simp add: addr_elem0_def)
  qed
  then show ?thesis using main_nonroot_x [OF assms, of env p argv] by simp
qed

theorem nonroot_supplies_empty_buffers_witness:
  "(1 :: cint) \<noteq> 0 \<and>
   A_vec (state_of (main (test_env CONVERGED) 4 1 [''./jacobi'', ''-n'', ''2''])) = [] \<and>
   Ev_mpi_jacobi 2 No_element No_element No_element (grid_of 4)
     \<in> set (trace_of (main (test_env CONVERGED) 4 1 [''./jacobi'', ''-n'', ''2'']))"
proof -
  have h: "(1 :: cint) \<noteq> 0" by simp
  have c: "Ev_mpi_jacobi 2 No_element No_element No_element (grid_of 4)
     \<in> set (trace_of (main (test_env CONVERGED) 4 1 [''./jacobi'', ''-n'', ''2'']))"
    by code_simp
  from nonroot_supplies_empty_buffers [OF h, of "test_env CONVERGED" 4 "[''./jacobi'', ''-n'', ''2'']"] c
  show ?thesis by simp
qed

text \<open>
  C3 as stated fails in its second half: on rank 1 of four processes the driver forms
  \<^verbatim>\<open>&A[0]\<close>, \<^verbatim>\<open>&b[0]\<close> and \<^verbatim>\<open>&x[0]\<close> although the three vectors are empty; line 183
  has no test for emptiness.
\<close>

theorem nonroot_subscripts_empty_vectors_counterexample:
  "addr_elem0 [] = No_element \<and>
   b_vec (state_of (prologue (test_env CONVERGED) 1 [''./jacobi'', ''-n'', ''2''])) = [] \<and>
   trace_of (main (test_env CONVERGED) 4 1 [''./jacobi'', ''-n'', ''2'']) =
     [Ev_MPI_Init, Ev_MPI_Bcast_n,
      Ev_MPI_Cart_create (Cart_comm MPI_COMM_WORLD 2 [2, 2] [0, 0] 0),
      Ev_mpi_jacobi 2 No_element No_element No_element
        (Cart_comm MPI_COMM_WORLD 2 [2, 2] [0, 0] 0),
      Ev_MPI_Finalize]"
  by code_simp

subsection \<open>C4: one process\<close>

text \<open>
  C4, as amended. With \<open>p = 1\<close> the driver never broadcasts \<open>n\<close>, never evaluates the
  perfect-square check, never builds a grid and never calls \<^verbatim>\<open>mpi_jacobi\<close>. If its
  argument handling and input loading succeed and \<open>n\<close> is not negative, it prints the
  warning, allocates \<open>x\<close> with \<open>n\<close> zeros, calls \<^verbatim>\<open>jacobi(n, &A[0], &b[0], &x[0])\<close>, reports
  and returns with \<open>x\<close> as the solver wrote it.
\<close>

theorem single_process_runs_sequential:
  assumes "p = 1"
  shows "(\<forall>ev \<in> set (trace_of (main env p 0 argv)).
            ev \<noteq> Ev_MPI_Bcast_n \<and> (\<forall>g. ev \<noteq> Ev_MPI_Cart_create g) \<and>
            (\<forall>k a b x c. ev \<noteq> Ev_mpi_jacobi k a b x c)) \<and>
         \<not> square_checked (state_of (main env p 0 argv)) \<and>
         outcome (main env p 0 argv) \<noteq> Some (Runtime_error perfect_square_msg) \<and>
         (\<forall>st n. prologue env 0 argv = Inr st \<and> n_var st = Some n \<and> 0 \<le> sint n \<longrightarrow>
            outcome (main env p 0 argv) = None \<and>
            x_vec (state_of (main env p 0 argv)) =
              map (jacobi env n (addr_elem0 (A_vec st)) (addr_elem0 (b_vec st))
                     (addr_elem0 (replicate (nat (sint n)) 0))) [0..<nat (sint n)] \<and>
            trace_of (main env p 0 argv) =
              trace st @
              [Ev_warning_sequential, Ev_alloc_x (nat (sint n)),
               Ev_jacobi n (addr_elem0 (A_vec st)) (addr_elem0 (b_vec st))
                 (addr_elem0 (replicate (nat (sint n)) 0)),
               Ev_timer_end, Ev_print_time] @
              (if write_output st
               then [Ev_write_binary_file (outfile_name st)
                       (map (jacobi env n (addr_elem0 (A_vec st)) (addr_elem0 (b_vec st))
                               (addr_elem0 (replicate (nat (sint n)) 0))) [0..<nat (sint n)])]
               else []) @
              [Ev_MPI_Finalize])"
proof -
  have np: "\<not> 1 <s p" using assms by (simp add: sless_one_iff)
  have c1: "\<forall>ev \<in> set (trace_of (main env p 0 argv)).
            ev \<noteq> Ev_MPI_Bcast_n \<and> (\<forall>g. ev \<noteq> Ev_MPI_Cart_create g) \<and>
            (\<forall>k a b x c. ev \<noteq> Ev_mpi_jacobi k a b x c)"
  proof (cases "prologue env 0 argv")
    case (Inl e)
    obtain s st where e: "e = (s, st)" by (cases e)
    show ?thesis using Inl e prologue_trace [of env 0 argv]
      by (auto simp add: main_stops_in_prologue)
  next
    case (Inr root)
    then obtain n where n: "n_var root = Some n" using prologue_root_n by blast
    have pt: "\<forall>e \<in> set (trace root). is_prologue_event e"
      using prologue_trace [of env 0 argv] Inr by simp
    show ?thesis using Inr n np pt
      by (auto simp add: main_sequential_root split: if_splits)
  qed
  have c2: "\<not> square_checked (state_of (main env p 0 argv))"
    using np by (rule main_sequential_square_checked)
  have c3: "outcome (main env p 0 argv) \<noteq> Some (Runtime_error perfect_square_msg)"
    using main_perfect_square_error_iff [of env p 0 argv] np by simp
  have c4: "\<forall>st n. prologue env 0 argv = Inr st \<and> n_var st = Some n \<and> 0 \<le> sint n \<longrightarrow>
            outcome (main env p 0 argv) = None \<and>
            x_vec (state_of (main env p 0 argv)) =
              map (jacobi env n (addr_elem0 (A_vec st)) (addr_elem0 (b_vec st))
                     (addr_elem0 (replicate (nat (sint n)) 0))) [0..<nat (sint n)] \<and>
            trace_of (main env p 0 argv) =
              trace st @
              [Ev_warning_sequential, Ev_alloc_x (nat (sint n)),
               Ev_jacobi n (addr_elem0 (A_vec st)) (addr_elem0 (b_vec st))
                 (addr_elem0 (replicate (nat (sint n)) 0)),
               Ev_timer_end, Ev_print_time] @
              (if write_output st
               then [Ev_write_binary_file (outfile_name st)
                       (map (jacobi env n (addr_elem0 (A_vec st)) (addr_elem0 (b_vec st))
                               (addr_elem0 (replicate (nat (sint n)) 0))) [0..<nat (sint n)])]
               else []) @
              [Ev_MPI_Finalize]"
    using np main_sequential_root_run [of env argv _ _ p] by blast
  show ?thesis using c1 c2 c3 c4 by (intro conjI)
qed

theorem single_process_runs_sequential_witness:
  "outcome (main (test_env CONVERGED) 1 0 [''./jacobi'', ''A.bin'', ''b.bin'', ''x.bin'']) = None \<and>
   x_vec (state_of (main (test_env CONVERGED) 1 0 [''./jacobi'', ''A.bin'', ''b.bin'', ''x.bin''])) =
     [7, 7] \<and>
   \<not> square_checked
       (state_of (main (test_env CONVERGED) 1 0 [''./jacobi'', ''A.bin'', ''b.bin'', ''x.bin'']))"
proof -
  let ?env = "test_env CONVERGED" and ?argv = "[''./jacobi'', ''A.bin'', ''b.bin'', ''x.bin'']"
  have "outcome (prologue ?env 0 ?argv) = None" by code_simp
  then obtain st where st: "prologue ?env 0 ?argv = Inr st" using outcome_None_iff by blast
  have "n_var (state_of (prologue ?env 0 ?argv)) = Some 2" by code_simp
  then have n: "n_var st = Some 2" using st by simp
  have j: "jacobi ?env = (\<lambda>n a b x i. 7)" by (simp add: test_env_def)
  have u: "[0..<nat (sint (2 :: cint))] = [0, 1]" by code_simp
  have nn: "0 \<le> sint (2 :: cint)" by simp
  from single_process_runs_sequential [OF refl, of ?env ?argv] st n nn
  have "outcome (main ?env 1 0 ?argv) = None \<and>
        x_vec (state_of (main ?env 1 0 ?argv)) =
              map (jacobi ?env 2 (addr_elem0 (A_vec st)) (addr_elem0 (b_vec st))
                     (addr_elem0 (replicate (nat (sint (2 :: cint))) 0))) [0..<nat (sint (2 :: cint))] \<and>
        \<not> square_checked (state_of (main ?env 1 0 ?argv))"
    by blast
  then show ?thesis unfolding j u by simp
qed

text \<open>
  C4 as stated fails twice. With one process and no arguments the driver prints the usage
  message and exits; the sequential solver is not called. With a vector file of
  \<open>2^32 - 1\<close> elements and a matrix file of one element, line 137 makes \<open>n = -1\<close>, the check
  of line 140 passes, and \<^verbatim>\<open>std::vector<double>(n)\<close> at line 190 throws before the solver
  is called.
\<close>

theorem single_process_counterexample:
  "main (test_env CONVERGED) 1 0 [''./jacobi''] =
     Inl (Exit_failure, emit Ev_print_usage (emit Ev_MPI_Init init_proc)) \<and>
   trace_of (main (test_env CONVERGED) 1 0 [''./jacobi'']) = [Ev_MPI_Init, Ev_print_usage] \<and>
   n_var (state_of (prologue big_env 0 [''./jacobi'', ''A1.bin'', ''b_minus1.bin'', ''x.bin''])) =
     Some (- 1) \<and>
   outcome (main big_env 1 0 [''./jacobi'', ''A1.bin'', ''b_minus1.bin'', ''x.bin'']) =
     Some Length_error \<and>
   trace_of (main big_env 1 0 [''./jacobi'', ''A1.bin'', ''b_minus1.bin'', ''x.bin'']) =
     [Ev_MPI_Init, Ev_read_binary_file ''A1.bin'', Ev_read_binary_file ''b_minus1.bin'',
      Ev_timer_start, Ev_warning_sequential]"
proof -
  have np: "\<not> 1 <s (1 :: cint)" by (simp add: sless_one_iff)
  have a: "main (test_env CONVERGED) 1 0 [''./jacobi''] =
     Inl (Exit_failure, emit Ev_print_usage (emit Ev_MPI_Init init_proc)) \<and>
   trace_of (main (test_env CONVERGED) 1 0 [''./jacobi'']) = [Ev_MPI_Init, Ev_print_usage]"
    by code_simp
  have b: "main big_env 1 0 [''./jacobi'', ''A1.bin'', ''b_minus1.bin'', ''x.bin''] =
      Inl (Length_error, emit Ev_warning_sequential
        (init_proc\<lparr>A_vec := [1], b_vec := replicate (2 ^ 32 - 1) 0,
                    write_output := True, outfile_name := ''x.bin'', n_var := Some (- 1),
                    trace := [Ev_MPI_Init, Ev_read_binary_file ''A1.bin'',
                              Ev_read_binary_file ''b_minus1.bin'', Ev_timer_start]\<rparr>))"
    by (simp add: main_sequential_root [OF big_prologue_minus1 _ np])
  show ?thesis using a by (simp add: b big_prologue_minus1)
qed

subsection \<open>C5: mismatching dimensions of the input files\<close>

text \<open>
  C5, as amended. In file-input mode (four arguments, the first of them not \<open>-n\<close>), let
  \<open>n\<close> be the number of elements read for \<open>b\<close>, and let it be below \<open>2^31\<close>, so that the
  \<^verbatim>\<open>int\<close> of line 137 holds it. If the number of elements read for \<open>A\<close> (which fits
  \<^verbatim>\<open>size_t\<close>) is not \<open>n * n\<close>, the root throws the runtime error "The input dimensions are
  not matching" right after the two reads, and no process calls a solver.
\<close>

theorem dimension_mismatch_is_fatal:
  assumes "length argv = 4" and "argv ! 1 \<noteq> ''-n''"
    and "A' = read_binary_file env (argv ! 1)" and "b' = read_binary_file env (argv ! 2)"
    and "length b' < 2 ^ 31" and "length A' < 2 ^ 64"
    and "length A' \<noteq> length b' * length b'"
  shows "main env p 0 argv =
           Inl (Runtime_error dimensions_msg,
                init_proc\<lparr>A_vec := A', b_vec := b', write_output := True,
                          outfile_name := argv ! 3, n_var := Some (ucast (size_v b')),
                          trace := [Ev_MPI_Init, Ev_read_binary_file (argv ! 1),
                                    Ev_read_binary_file (argv ! 2)]\<rparr>) \<and>
         sint (ucast (size_v b') :: cint) = int (length b') \<and>
         (\<forall>ev \<in> set (trace_of (main env p rank argv)). \<not> is_solver_call ev)"
proof -
  let ?n = "ucast (size_v b') :: cint"
  have n: "sint ?n = int (length b')"
    unfolding size_v_def using assms(5) by (rule sint_ucast_size)
  have "int (length A') \<noteq> int (length b' * length b')"
    using assms(7) by (simp only: of_nat_eq_iff not_False_eq_True)
  then have "int (length A') \<noteq> sint ?n * sint ?n" using n by simp
  then have ne: "size_v A' \<noteq> scast ?n * (scast ?n :: size_t)"
    using dimension_check_iff [OF assms(6), of ?n] by simp
  have p: "prologue env 0 argv =
           Inl (Runtime_error dimensions_msg,
                init_proc\<lparr>A_vec := A', b_vec := b', write_output := True,
                          outfile_name := argv ! 3, n_var := Some ?n,
                          trace := [Ev_MPI_Init, Ev_read_binary_file (argv ! 1),
                                    Ev_read_binary_file (argv ! 2)]\<rparr>)"
    using ne assms(1-4)
    by (simp add: prologue_def read_input_file_mode Let_def emit_def init_proc_def)
  show ?thesis
    using p n main_nonroot_no_solver_call_when_root_stops [OF p, of _ p rank]
    by (simp add: main_stops_in_prologue)
qed

theorem dimension_mismatch_is_fatal_witness:
  "outcome (main (test_env CONVERGED) 4 0 [''./jacobi'', ''b.bin'', ''b.bin'', ''x.bin'']) =
     Some (Runtime_error dimensions_msg)"
proof -
  let ?argv = "[''./jacobi'', ''b.bin'', ''b.bin'', ''x.bin'']"
  let ?env = "test_env CONVERGED"
  have h1: "length ?argv = 4" by simp
  have h2: "?argv ! 1 \<noteq> ''-n''" by simp
  have h5: "length (read_binary_file ?env (?argv ! 2)) < 2 ^ 31" by (simp add: test_env_def)
  have h6: "length (read_binary_file ?env (?argv ! 1)) < 2 ^ 64" by (simp add: test_env_def)
  have h7: "length (read_binary_file ?env (?argv ! 1)) \<noteq>
            length (read_binary_file ?env (?argv ! 2)) * length (read_binary_file ?env (?argv ! 2))"
    by (simp add: test_env_def)
  from dimension_mismatch_is_fatal [OF h1 h2 refl refl h5 h6 h7, of 4]
  show ?thesis by simp
qed

text \<open>
  C5 as stated fails: with \<open>2^32 + 2\<close> elements read for \<open>b\<close> and 4 for \<open>A\<close>, line 137
  leaves \<open>n = 2\<close>, the check of line 140 passes although 4 is not the square of the number
  of elements of \<open>b\<close>, and the sequential solver is called with these buffers.
\<close>

theorem truncated_size_passes_check_counterexample:
  "length (read_binary_file big_env ''b_plus2.bin'') = 2 ^ 32 + 2 \<and>
   length (read_binary_file big_env ''A4.bin'') = 4 \<and>
   outcome (main big_env 1 0 [''./jacobi'', ''A4.bin'', ''b_plus2.bin'', ''x.bin'']) = None \<and>
   Ev_jacobi 2 (Element0 [1, 2, 3, 4]) (addr_elem0 (replicate (2 ^ 32 + 2) 0)) (Element0 [0, 0])
     \<in> set (trace_of (main big_env 1 0 [''./jacobi'', ''A4.bin'', ''b_plus2.bin'', ''x.bin'']))"
proof -
  have np: "\<not> 1 <s (1 :: cint)" by (simp add: sless_one_iff)
  have r: "addr_elem0 (replicate 2 (0 :: double)) = Element0 [0, 0]" by code_simp
  have a: "addr_elem0 [1, 2, 3, 4 :: double] = Element0 [1, 2, 3, 4]"
    by (simp add: addr_elem0_def)
  have l: "length (read_binary_file big_env ''b_plus2.bin'') = 2 ^ 32 + 2 \<and>
           length (read_binary_file big_env ''A4.bin'') = 4"
    by (simp add: big_env_def)
  have m: "outcome (main big_env 1 0 [''./jacobi'', ''A4.bin'', ''b_plus2.bin'', ''x.bin'']) = None \<and>
      Ev_jacobi 2 (Element0 [1, 2, 3, 4]) (addr_elem0 (replicate (2 ^ 32 + 2) 0)) (Element0 [0, 0])
      \<in> set (trace_of (main big_env 1 0 [''./jacobi'', ''A4.bin'', ''b_plus2.bin'', ''x.bin'']))"
    by (simp add: main_sequential_root [OF big_prologue_plus2 _ np] r a)
  show ?thesis using l m by (intro conjI) simp_all
qed

subsection \<open>C6: the communicator handed to the parallel solver\<close>

text \<open>
  C6. With \<open>p > 1\<close> passing the perfect-square check, every call of \<^verbatim>\<open>mpi_jacobi\<close>, on
  every process, receives the communicator made by \<^verbatim>\<open>MPI_Cart_create\<close> from the world
  communicator with 2 dimensions \<open>q\<close>, \<open>q\<close>, periods 0, 0 and no reordering, where
  \<open>q = (int)sqrt(p)\<close>, \<open>q * q = p\<close> and \<open>q > 0\<close>; and the call does take place on every
  process once the root has its input (on the root, for \<open>n\<close> not negative).
\<close>

theorem solver_receives_square_grid:
  assumes "1 <s p" and "p = int_sqrt p * int_sqrt p"
  shows "(\<forall>k a b x c. Ev_mpi_jacobi k a b x c \<in> set (trace_of (main env p rank argv)) \<longrightarrow>
            c = Cart_comm MPI_COMM_WORLD 2 [int_sqrt p, int_sqrt p] [0, 0] 0) \<and>
         sint (int_sqrt p) * sint (int_sqrt p) = sint p \<and> 0 < sint (int_sqrt p) \<and>
         (\<forall>root n. prologue env 0 argv = Inr root \<and> n_var root = Some n \<and>
                   (rank = 0 \<longrightarrow> 0 \<le> sint n) \<longrightarrow>
            (\<exists>a b x. Ev_mpi_jacobi n a b x
                        (Cart_comm MPI_COMM_WORLD 2 [int_sqrt p, int_sqrt p] [0, 0] 0)
                      \<in> set (trace_of (main env p rank argv))))"
proof -
  have g: "grid_of p = Cart_comm MPI_COMM_WORLD 2 [int_sqrt p, int_sqrt p] [0, 0] 0"
    by (simp add: grid_of_def MPI_Cart_create_def)
  have c1: "\<forall>k a b x c. Ev_mpi_jacobi k a b x c \<in> set (trace_of (main env p rank argv)) \<longrightarrow>
            c = Cart_comm MPI_COMM_WORLD 2 [int_sqrt p, int_sqrt p] [0, 0] 0"
    using main_mpi_jacobi_event [of _ _ _ _ _ env p rank argv] g by metis
  have c2: "sint (int_sqrt p) * sint (int_sqrt p) = sint p \<and> 0 < sint (int_sqrt p)"
    using assms by (rule grid_dims)
  have c3: "\<forall>root n. prologue env 0 argv = Inr root \<and> n_var root = Some n \<and>
                   (rank = 0 \<longrightarrow> 0 \<le> sint n) \<longrightarrow>
            (\<exists>a b x. Ev_mpi_jacobi n a b x
                        (Cart_comm MPI_COMM_WORLD 2 [int_sqrt p, int_sqrt p] [0, 0] 0)
                      \<in> set (trace_of (main env p rank argv)))"
    using main_calls_mpi_jacobi [OF assms, of env argv _ _ rank] g by metis
  show ?thesis using c1 c2 c3 by (intro conjI) simp_all
qed

theorem solver_receives_square_grid_witness:
  "1 <s (4 :: cint) \<and> (4 :: cint) = int_sqrt 4 * int_sqrt 4 \<and>
   sint (int_sqrt 4) * sint (int_sqrt 4) = sint (4 :: cint) \<and>
   (\<exists>a b x. Ev_mpi_jacobi 2 a b x (Cart_comm MPI_COMM_WORLD 2 [int_sqrt 4, int_sqrt 4] [0, 0] 0)
       \<in> set (trace_of (main (test_env CONVERGED) 4 3 [''./jacobi'', ''-n'', ''2''])))"
proof -
  let ?env = "test_env CONVERGED" and ?argv = "[''./jacobi'', ''-n'', ''2'']"
  have h1: "1 <s (4 :: cint)" by (simp add: sless_one_iff)
  have h2: "(4 :: cint) = int_sqrt 4 * int_sqrt 4" by code_simp
  have "outcome (prologue ?env 0 ?argv) = None" by code_simp
  then obtain root where root: "prologue ?env 0 ?argv = Inr root"
    using outcome_None_iff by blast
  have "n_var (state_of (prologue ?env 0 ?argv)) = Some 2" by code_simp
  then have n: "n_var root = Some 2" using root by simp
  have three: "(3 :: cint) \<noteq> 0" by simp
  from solver_receives_square_grid [OF h1 h2, of ?env 3 ?argv] root n three h1 h2
  show ?thesis by blast
qed

subsection \<open>C7: the perfect-square check gives the same verdict on every process\<close>

text \<open>
  C7. Whether a process stops with the perfect-square error depends on \<open>p\<close> and on
  whether the broadcast of \<open>n\<close> completes, never on the rank or on data of the process;
  so in a run either every process raises that error or none does.
\<close>

theorem square_check_consistent:
  "(outcome (main env p rank argv) = Some (Runtime_error perfect_square_msg) \<longleftrightarrow>
      1 <s p \<and> p \<noteq> int_sqrt p * int_sqrt p \<and> outcome (prologue env 0 argv) = None) \<and>
   ((\<forall>r \<in> set (run env p argv). outcome r = Some (Runtime_error perfect_square_msg)) \<or>
    (\<forall>r \<in> set (run env p argv). outcome r \<noteq> Some (Runtime_error perfect_square_msg)))"
proof -
  have "\<And>r. r \<in> set (run env p argv) \<Longrightarrow>
          outcome r = Some (Runtime_error perfect_square_msg) \<longleftrightarrow>
          1 <s p \<and> p \<noteq> int_sqrt p * int_sqrt p \<and> outcome (prologue env 0 argv) = None"
    by (auto simp add: run_def main_perfect_square_error_iff)
  then show ?thesis using main_perfect_square_error_iff [of env p rank argv] by blast
qed

theorem square_check_consistent_witness:
  "map outcome (run (test_env CONVERGED) 2 [''./jacobi'', ''-n'', ''2'']) =
     [Some (Runtime_error perfect_square_msg), Some (Runtime_error perfect_square_msg)]"
proof -
  let ?env = "test_env CONVERGED" and ?argv = "[''./jacobi'', ''-n'', ''2'']"
  have a: "run ?env 2 ?argv = [main ?env 2 0 ?argv, main ?env 2 1 ?argv]"
    by code_simp
  have h: "outcome (prologue ?env 0 ?argv) = None" by code_simp
  have s: "1 <s (2 :: cint) \<and> (2 :: cint) \<noteq> int_sqrt 2 * int_sqrt 2" by code_simp
  show ?thesis
    using square_check_consistent [of ?env 2 0 ?argv] square_check_consistent [of ?env 2 1 ?argv]
      h s
    unfolding a by simp
qed

subsection \<open>C8: the output vector lives on the root\<close>



subsection \<open>C9: the broadcast of the problem size\<close>

text \<open>
  C9, as amended. In a parallel run (\<open>p > 1\<close>), \<open>n\<close> is uninitialised after the prologue
  on every process that is not the root, and the prologue neither broadcasts nor builds a
  grid. If the root's argument handling and input loading succeed, the root holds an
  \<open>n\<close>, every process enters the broadcast right after its prologue and ends the run
  holding the root's \<open>n\<close>, the grid is built right after the broadcast when \<open>p\<close> passes
  the check, and \<^verbatim>\<open>mpi_jacobi\<close> is handed the root's \<open>n\<close>. If the root stops in its input
  handling, it never broadcasts, and every other process stays in the broadcast with \<open>n\<close>
  uninitialised.
\<close>

theorem n_broadcast_before_grid:
  assumes "1 <s p"
  shows "(rank \<noteq> 0 \<longrightarrow> n_var (state_of (prologue env rank argv)) = None) \<and>
         (\<forall>e \<in> set (trace_of (prologue env rank argv)). is_prologue_event e) \<and>
         (\<forall>root. prologue env 0 argv = Inr root \<longrightarrow>
            n_var root \<noteq> None \<and>
            n_var (state_of (main env p rank argv)) = n_var root \<and>
            (\<exists>rest. trace_of (main env p rank argv) =
                      trace_of (prologue env rank argv) @ Ev_MPI_Bcast_n # rest \<and>
                    (p \<noteq> int_sqrt p * int_sqrt p \<longrightarrow> rest = []) \<and>
                    (p = int_sqrt p * int_sqrt p \<longrightarrow>
                       (\<exists>rest'. rest = Ev_MPI_Cart_create (grid_of p) # rest'))) \<and>
            (\<forall>k a b x c. Ev_mpi_jacobi k a b x c \<in> set (trace_of (main env p rank argv)) \<longrightarrow>
               n_var root = Some k)) \<and>
         (\<forall>e. prologue env 0 argv = Inl e \<longrightarrow>
            Ev_MPI_Bcast_n \<notin> set (trace_of (main env p 0 argv)) \<and>
            (rank \<noteq> 0 \<longrightarrow> outcome (main env p rank argv) = Some Stuck_in_bcast \<and>
                           n_var (state_of (main env p rank argv)) = None))"
proof -
  have c1: "rank \<noteq> 0 \<longrightarrow> n_var (state_of (prologue env rank argv)) = None"
    by (simp add: prologue_nonroot)
  have c2: "\<forall>e \<in> set (trace_of (prologue env rank argv)). is_prologue_event e"
    by (rule prologue_trace)
  have c3: "\<forall>root. prologue env 0 argv = Inr root \<longrightarrow>
            n_var root \<noteq> None \<and>
            n_var (state_of (main env p rank argv)) = n_var root \<and>
            (\<exists>rest. trace_of (main env p rank argv) =
                      trace_of (prologue env rank argv) @ Ev_MPI_Bcast_n # rest \<and>
                    (p \<noteq> int_sqrt p * int_sqrt p \<longrightarrow> rest = []) \<and>
                    (p = int_sqrt p * int_sqrt p \<longrightarrow>
                       (\<exists>rest'. rest = Ev_MPI_Cart_create (grid_of p) # rest'))) \<and>
            (\<forall>k a b x c. Ev_mpi_jacobi k a b x c \<in> set (trace_of (main env p rank argv)) \<longrightarrow>
               n_var root = Some k)"
  proof (intro allI impI)
    fix root
    assume r: "prologue env 0 argv = Inr root"
    have a: "n_var root \<noteq> None" using r by (rule prologue_root_n)
    have b: "\<forall>k a b x c. Ev_mpi_jacobi k a b x c \<in> set (trace_of (main env p rank argv)) \<longrightarrow>
               n_var root = Some k"
      using main_mpi_jacobi_event [of _ _ _ _ _ env p rank argv] r by fastforce
    show "n_var root \<noteq> None \<and>
            n_var (state_of (main env p rank argv)) = n_var root \<and>
            (\<exists>rest. trace_of (main env p rank argv) =
                      trace_of (prologue env rank argv) @ Ev_MPI_Bcast_n # rest \<and>
                    (p \<noteq> int_sqrt p * int_sqrt p \<longrightarrow> rest = []) \<and>
                    (p = int_sqrt p * int_sqrt p \<longrightarrow>
                       (\<exists>rest'. rest = Ev_MPI_Cart_create (grid_of p) # rest'))) \<and>
            (\<forall>k a b x c. Ev_mpi_jacobi k a b x c \<in> set (trace_of (main env p rank argv)) \<longrightarrow>
               n_var root = Some k)"
      using a b main_parallel_broadcast [OF assms r, of rank] by (intro conjI) simp_all
  qed
  have c4: "\<forall>e. prologue env 0 argv = Inl e \<longrightarrow>
            Ev_MPI_Bcast_n \<notin> set (trace_of (main env p 0 argv)) \<and>
            (rank \<noteq> 0 \<longrightarrow> outcome (main env p rank argv) = Some Stuck_in_bcast \<and>
                           n_var (state_of (main env p rank argv)) = None)"
    using main_parallel_no_broadcast [OF assms, of env argv _ rank] by blast
  show ?thesis using c1 c2 c3 c4 by (intro conjI)
qed

theorem n_broadcast_before_grid_witness:
  "1 <s (4 :: cint) \<and>
   n_var (state_of (prologue (test_env CONVERGED) 1 [''./jacobi'', ''-n'', ''2''])) = None \<and>
   n_var (state_of (main (test_env CONVERGED) 4 1 [''./jacobi'', ''-n'', ''2''])) = Some 2"
proof -
  let ?env = "test_env CONVERGED" and ?argv = "[''./jacobi'', ''-n'', ''2'']"
  have h1: "1 <s (4 :: cint)" by (simp add: sless_one_iff)
  have "outcome (prologue ?env 0 ?argv) = None" by code_simp
  then obtain root where root: "prologue ?env 0 ?argv = Inr root"
    using outcome_None_iff by blast
  have "n_var (state_of (prologue ?env 0 ?argv)) = Some 2" by code_simp
  then have n: "n_var root = Some 2" using root by simp
  have one: "(1 :: cint) \<noteq> 0" by simp
  from n_broadcast_before_grid [OF h1, of 1 ?env ?argv] one root n h1
  show ?thesis by auto
qed

text \<open>
  C9 as stated fails: with four processes and no arguments the root prints the usage
  message and exits without broadcasting, and rank 1 stays in the broadcast with \<open>n\<close>
  uninitialised.
\<close>

theorem no_broadcast_without_arguments_counterexample:
  "1 <s (4 :: cint) \<and>
   trace_of (main (test_env CONVERGED) 4 0 [''./jacobi'']) = [Ev_MPI_Init, Ev_print_usage] \<and>
   main (test_env CONVERGED) 4 1 [''./jacobi''] =
     Inl (Stuck_in_bcast, emit Ev_MPI_Bcast_n (emit Ev_MPI_Init init_proc)) \<and>
   n_var (state_of (main (test_env CONVERGED) 4 1 [''./jacobi''])) = None"
  by code_simp

subsection \<open>C10: a size argument that is not positive\<close>

text \<open>
  C10. In random-generation mode (first argument \<open>-n\<close>), if the size argument is not
  numeric (it then parses to 0) or parses, as \<^verbatim>\<open>atoi\<close> does, to a value that is not
  positive (a text beyond \<^verbatim>\<open>long\<close> included), the root
  prints the usage message and exits with failure before anything else, and no process
  generates or reads input or calls a solver.
\<close>

theorem bad_size_prints_usage:
  assumes "3 \<le> length argv" and "argv ! 1 = ''-n''"
    and "non_numeric (argv ! 2) \<or> \<not> 0 <s atoi (argv ! 2)"
  shows "(non_numeric (argv ! 2) \<longrightarrow> atoi (argv ! 2) = 0) \<and>
         outcome (main env p 0 argv) = Some Exit_failure \<and>
         trace_of (main env p 0 argv) = [Ev_MPI_Init, Ev_print_usage] \<and>
         (\<forall>ev \<in> set (trace_of (main env p rank argv)).
            \<not> is_solver_call ev \<and> (\<forall>k d. ev \<noteq> Ev_diag_dom_rand k d) \<and> (\<forall>k. ev \<noteq> Ev_randn k) \<and>
            (\<forall>f. ev \<noteq> Ev_read_binary_file f))"
proof -
  have zero: "non_numeric (argv ! 2) \<longrightarrow> atoi (argv ! 2) = 0"
    using atoi_non_numeric by blast
  have "\<not> 0 <s atoi (argv ! 2)"
    using assms(3) atoi_non_numeric [of "argv ! 2"] by (auto simp add: sless_zero_iff)
  then have p: "prologue env 0 argv =
      Inl (Exit_failure,
           emit Ev_print_usage ((emit Ev_MPI_Init init_proc)\<lparr>n_var := Some (atoi (argv ! 2))\<rparr>))"
    using assms(1,2) by (simp add: prologue_def read_input_bad_size)
  have root: "main env p 0 argv =
      Inl (Exit_failure,
           emit Ev_print_usage ((emit Ev_MPI_Init init_proc)\<lparr>n_var := Some (atoi (argv ! 2))\<rparr>))"
    using p by (simp add: main_stops_in_prologue)
  have other: "\<forall>ev \<in> set (trace_of (main env p rank argv)).
            \<not> is_solver_call ev \<and> (\<forall>k d. ev \<noteq> Ev_diag_dom_rand k d) \<and> (\<forall>k. ev \<noteq> Ev_randn k) \<and>
            (\<forall>f. ev \<noteq> Ev_read_binary_file f)"
  proof (cases "rank = 0")
    case True
    then show ?thesis using root by auto
  next
    case False
    then show ?thesis using p
      by (cases "1 <s p") (auto simp add: main_parallel_nonroot main_sequential_nonroot)
  qed
  show ?thesis using zero root other by simp
qed

theorem bad_size_prints_usage_witness:
  "non_numeric ''abc'' \<and> atoi ''abc'' = 0 \<and> \<not> 0 <s atoi ''-3'' \<and>
   atoi ''9223372036854775809'' = - 1 \<and>
   outcome (main (test_env CONVERGED) 4 0 [''./jacobi'', ''-n'', ''abc'']) = Some Exit_failure \<and>
   outcome (main (test_env CONVERGED) 1 0 [''./jacobi'', ''-n'', ''-3'']) = Some Exit_failure \<and>
   outcome (main (test_env CONVERGED) 1 0 [''./jacobi'', ''-n'', ''9223372036854775809'']) =
     Some Exit_failure"
proof -
  have h1: "3 \<le> length [''./jacobi'', ''-n'', ''abc'']" by simp
  have h2: "[''./jacobi'', ''-n'', ''abc''] ! 1 = ''-n''" by simp
  have nn: "non_numeric ''abc''" by code_simp
  have h3: "non_numeric ([''./jacobi'', ''-n'', ''abc''] ! 2) \<or>
            \<not> 0 <s atoi ([''./jacobi'', ''-n'', ''abc''] ! 2)"
    using nn by simp
  have k1: "3 \<le> length [''./jacobi'', ''-n'', ''-3'']" by simp
  have k2: "[''./jacobi'', ''-n'', ''-3''] ! 1 = ''-n''" by simp
  have neg: "\<not> 0 <s atoi ''-3''" by code_simp
  have k3: "non_numeric ([''./jacobi'', ''-n'', ''-3''] ! 2) \<or>
            \<not> 0 <s atoi ([''./jacobi'', ''-n'', ''-3''] ! 2)"
    using neg by simp
  have m1: "3 \<le> length [''./jacobi'', ''-n'', ''9223372036854775809'']" by simp
  have m2: "[''./jacobi'', ''-n'', ''9223372036854775809''] ! 1 = ''-n''" by simp
  have big: "atoi ''9223372036854775809'' = - 1" by code_simp
  have m3: "non_numeric ([''./jacobi'', ''-n'', ''9223372036854775809''] ! 2) \<or>
            \<not> 0 <s atoi ([''./jacobi'', ''-n'', ''9223372036854775809''] ! 2)"
    using big by (simp add: sless_zero_iff)
  have z: "atoi ''abc'' = 0" by code_simp
  from bad_size_prints_usage [OF h1 h2 h3, of "test_env CONVERGED" 4]
       bad_size_prints_usage [OF k1 k2 k3, of "test_env CONVERGED" 1]
       bad_size_prints_usage [OF m1 m2 m3, of "test_env CONVERGED" 1] nn neg z big
  show ?thesis by simp
qed

end
